theory Spec2Isabelle
  imports Complex_Main
begin

section \<open>The arrow grid of src/app/page.tsx\<close>

text \<open>
  The component keeps a grid of arrows, each with a fixed position and a current angle,
  and turns every arrow towards the mouse on each animation frame. JavaScript numbers are
  modelled as mathematical reals (type \<open>real\<close>): rounding of IEEE doubles is not part of
  the model. The canvas dimensions are non-negative integers (\<open>canvas.width\<close> is an
  unsigned long, whatever is assigned to it), modelled as \<open>nat\<close>; on them the remainder
  \<open>%\<close> by the spacing is \<open>mod\<close>.
\<close>

subsection \<open>Constants (page.tsx, lines 6 to 21)\<close>

definition ARROW_SPACING :: nat where
  "ARROW_SPACING = 50"

definition FADE_START_DISTANCE :: real where
  "FADE_START_DISTANCE = 100"

definition FADE_END_DISTANCE :: real where
  "FADE_END_DISTANCE = 200"

definition MIN_OPACITY :: real where
  "MIN_OPACITY = 0.01"

definition MAX_OPACITY :: real where
  "MAX_OPACITY = 1.0"

definition SMOOTHING_FACTOR :: real where
  "SMOOTHING_FACTOR = 0.05"

subsection \<open>Data\<close>

text \<open>
  An element of \<open>arrowGridPositions\<close> is \<open>{ x, y, currentAngle }\<close>; the fields \<open>x\<close> and
  \<open>y\<close> are called \<open>arrow_x\<close> and \<open>arrow_y\<close> here. \<open>targetMousePos\<close> is \<open>{ x, y }\<close>,
  with fields \<open>mouse_x\<close> and \<open>mouse_y\<close> here.
\<close>

record arrow =
  arrow_x :: real
  arrow_y :: real
  currentAngle :: real

record mousePos =
  mouse_x :: real
  mouse_y :: real

text \<open>
  What one frame hands to \<open>drawArrow\<close> for one arrow: the position, the angle, and the
  \<open>globalAlpha\<close> set just before the call.
\<close>

record drawCall =
  draw_x :: real
  draw_y :: real
  draw_angle :: real
  globalAlpha :: real

text \<open>
  The canvas element behind \<open>canvasRef\<close>: its size, and whether \<open>getContext("2d")\<close>
  gives a context.
\<close>

record canvas =
  width :: nat
  height :: nat
  context2d :: bool

text \<open>
  The refs of the component: \<open>canvasRef.current\<close> (\<open>None\<close> for \<open>null\<close>),
  \<open>targetMousePos.current\<close> and \<open>arrowGridPositions.current\<close>.
\<close>

record component =
  canvasRef :: "canvas option"
  targetMousePos :: mousePos
  arrowGridPositions :: "arrow list"

subsection \<open>Library functions of JavaScript\<close>

text \<open>
  \<open>Math.atan2(y, x)\<close> on reals: the angle of the point \<open>(x, y)\<close> in \<open>(-\<pi>, \<pi>]\<close>, and \<open>0\<close>
  at the origin (ECMAScript gives \<open>+0\<close> for \<open>atan2(+0, +0)\<close>).
\<close>

definition atan2 :: "real \<Rightarrow> real \<Rightarrow> real" where
  "atan2 y x =
     (if 0 < x then arctan (y / x)
      else if x < 0 then (if 0 \<le> y then arctan (y / x) + pi else arctan (y / x) - pi)
      else if 0 < y then pi / 2
      else if y < 0 then - (pi / 2)
      else 0)"

text \<open>\<open>Math.hypot(dx, dy)\<close>.\<close>

definition hypot :: "real \<Rightarrow> real \<Rightarrow> real" where
  "hypot dx dy = sqrt (dx\<^sup>2 + dy\<^sup>2)"

subsection \<open>The frame step for one arrow (animate, lines 109 to 150)\<close>

text \<open>
  The wrap written out twice in \<open>animate\<close> (lines 119 to 120 and 126 to 127): two
  \<open>if\<close> statements in sequence, the second one reading the value the first one left.
\<close>

definition wrapAngle :: "real \<Rightarrow> real" where
  "wrapAngle v =
     (let v1 = (if v > pi then v - 2 * pi else v)
      in if v1 < - pi then v1 + 2 * pi else v1)"

text \<open>Lines 116 to 120: \<open>angleDiff\<close> after its normalization.\<close>

definition angleDiff :: "real \<Rightarrow> real \<Rightarrow> real" where
  "angleDiff targetAngle cur = wrapAngle (targetAngle - cur)"

text \<open>
  Lines 116 to 127, with the smoothing factor as a parameter \<open>k\<close>: the new value of
  \<open>arrow.currentAngle\<close>. The value before the second wrap is \<open>preWrapAngle\<close>.
\<close>

definition preWrapAngle :: "real \<Rightarrow> real \<Rightarrow> real \<Rightarrow> real" where
  "preWrapAngle k targetAngle cur = cur + angleDiff targetAngle cur * k"

definition stepAngle :: "real \<Rightarrow> real \<Rightarrow> real \<Rightarrow> real" where
  "stepAngle k targetAngle cur = wrapAngle (preWrapAngle k targetAngle cur)"

text \<open>Lines 130 to 140: the opacity for a distance.\<close>

definition opacityAt :: "real \<Rightarrow> real" where
  "opacityAt distance =
     (let opacity =
        (if distance > FADE_START_DISTANCE
         then (let fadeProgress =
                 min 1 ((distance - FADE_START_DISTANCE) / (FADE_END_DISTANCE - FADE_START_DISTANCE))
               in MAX_OPACITY - (MAX_OPACITY - MIN_OPACITY) * fadeProgress)
         else MAX_OPACITY)
      in max MIN_OPACITY (min MAX_OPACITY opacity))"

text \<open>
  The body of the \<open>forEach\<close> callback with smoothing factor \<open>k\<close>: the arrow after the
  step and the draw call issued for it.
\<close>

definition animateArrowWith :: "real \<Rightarrow> mousePos \<Rightarrow> arrow \<Rightarrow> arrow \<times> drawCall" where
  "animateArrowWith k m a =
     (let dx = mouse_x m - arrow_x a;
          dy = mouse_y m - arrow_y a;
          targetAngle = atan2 dy dx;
          a' = a\<lparr>currentAngle := stepAngle k targetAngle (currentAngle a)\<rparr>;
          distance = hypot dx dy;
          opacity = opacityAt distance
      in (a', \<lparr>draw_x = arrow_x a', draw_y = arrow_y a',
               draw_angle = currentAngle a', globalAlpha = opacity\<rparr>))"

definition animateArrow :: "mousePos \<Rightarrow> arrow \<Rightarrow> arrow \<times> drawCall" where
  "animateArrow m a = animateArrowWith SMOOTHING_FACTOR m a"

text \<open>
  \<open>animate\<close>: nothing happens without a canvas or without a 2d context; otherwise every
  arrow is stepped and drawn, in order. The scheduling of the next frame is not modelled.
\<close>

definition animate :: "component \<Rightarrow> component \<times> drawCall list" where
  "animate c =
     (case canvasRef c of
        None \<Rightarrow> (c, [])
      | Some cv \<Rightarrow>
          if \<not> context2d cv then (c, [])
          else (let rs = map (animateArrow (targetMousePos c)) (arrowGridPositions c)
                in (c\<lparr>arrowGridPositions := map fst rs\<rparr>, map snd rs)))"

text \<open>\<open>handleMouseMove\<close> (lines 163 to 165).\<close>

definition handleMouseMove :: "real \<Rightarrow> real \<Rightarrow> component \<Rightarrow> component" where
  "handleMouseMove clientX clientY c =
     c\<lparr>targetMousePos := \<lparr>mouse_x = clientX, mouse_y = clientY\<rparr>\<rparr>"

subsection \<open>The grid builder (setCanvasAndGrid, lines 70 to 89)\<close>

text \<open>
  The inner loop (line 83) for a row \<open>y\<close>, from the loop variable \<open>x\<close> on: the arrows it
  pushes, in order. \<open>w\<close> is \<open>canvas.width\<close>.
\<close>

function innerLoop :: "nat \<Rightarrow> real \<Rightarrow> real \<Rightarrow> arrow list" where
  "innerLoop w y x =
     (if x < real w
      then \<lparr>arrow_x = x, arrow_y = y, currentAngle = 0\<rparr> # innerLoop w y (x + real ARROW_SPACING)
      else [])"
  by pat_completeness auto
termination
  by (relation "measure (\<lambda>(w, y, x). nat \<lceil>real w - x\<rceil>)")
     (auto simp: ARROW_SPACING_def, linarith)

text \<open>
  The outer loop (line 82), from the loop variable \<open>y\<close> on; \<open>x0\<close> is the start value
  \<open>ARROW_SPACING / 2 + offsetX\<close> of the inner loop. \<open>h\<close> is \<open>canvas.height\<close>.
\<close>

function outerLoop :: "nat \<Rightarrow> nat \<Rightarrow> real \<Rightarrow> real \<Rightarrow> arrow list" where
  "outerLoop w h x0 y =
     (if y < real h
      then innerLoop w y x0 @ outerLoop w h x0 (y + real ARROW_SPACING)
      else [])"
  by pat_completeness auto
termination
  by (relation "measure (\<lambda>(w, h, x0, y). nat \<lceil>real h - y\<rceil>)")
     (auto simp: ARROW_SPACING_def, linarith)

text \<open>Lines 77 to 87: \<open>newGridPositions\<close> for a canvas of width \<open>w\<close> and height \<open>h\<close>.\<close>

definition newGridPositions :: "nat \<Rightarrow> nat \<Rightarrow> arrow list" where
  "newGridPositions w h =
     (let offsetX = real (w mod ARROW_SPACING) / 2;
          offsetY = real (h mod ARROW_SPACING) / 2
      in outerLoop w h (real ARROW_SPACING / 2 + offsetX) (real ARROW_SPACING / 2 + offsetY))"

text \<open>
  \<open>setCanvasAndGrid\<close>, with \<open>window.innerWidth\<close> and \<open>window.innerHeight\<close> as arguments:
  nothing happens without a canvas; otherwise the canvas is resized and the grid replaced.
\<close>

definition setCanvasAndGrid :: "nat \<Rightarrow> nat \<Rightarrow> component \<Rightarrow> component" where
  "setCanvasAndGrid innerWidth innerHeight c =
     (case canvasRef c of
        None \<Rightarrow> c
      | Some cv \<Rightarrow>
          (let cv' = cv\<lparr>width := innerWidth, height := innerHeight\<rparr>
           in c\<lparr>canvasRef := Some cv',
                arrowGridPositions := newGridPositions (width cv') (height cv')\<rparr>))"

subsection \<open>The handlers together (useEffect, lines 159 to 181)\<close>

text \<open>
  The refs as \<open>useRef\<close> makes them (lines 24 to 31): the mouse at the origin and no arrows.
  \<open>cv\<close> is what \<open>canvasRef.current\<close> holds once the component is mounted.
\<close>

definition initialComponent :: "canvas option \<Rightarrow> component" where
  "initialComponent cv =
     \<lparr>canvasRef = cv, targetMousePos = \<lparr>mouse_x = 0, mouse_y = 0\<rparr>, arrowGridPositions = []\<rparr>"

text \<open>
  What the effect registers: \<open>setCanvasAndGrid\<close> on mount and on every resize,
  \<open>handleMouseMove\<close> on every mouse move, \<open>animate\<close> on every animation frame. They run
  one after the other on one thread, in any order.
\<close>

datatype event = Resize nat nat | MouseMove real real | Frame

fun handleEvent :: "component \<Rightarrow> event \<Rightarrow> component" where
  "handleEvent c (Resize innerWidth innerHeight) = setCanvasAndGrid innerWidth innerHeight c"
| "handleEvent c (MouseMove clientX clientY) = handleMouseMove clientX clientY c"
| "handleEvent c Frame = fst (animate c)"

definition runEvents :: "component \<Rightarrow> event list \<Rightarrow> component" where
  "runEvents c es = foldl handleEvent c es"

subsection \<open>Repeated frames\<close>


subsection \<open>The opacity in double arithmetic\<close>




text \<open>
  The grid as the specification describes it: \<open>rows\<close> rows of \<open>cols\<close> arrows, row by row,
  the first arrow at \<open>(x0, y0)\<close>, neighbours \<open>ARROW_SPACING\<close> apart, every angle \<open>0\<close>.
\<close>

definition gridOf :: "nat \<Rightarrow> nat \<Rightarrow> real \<Rightarrow> real \<Rightarrow> arrow list" where
  "gridOf rows cols x0 y0 =
     concat (map (\<lambda>i. map (\<lambda>j. \<lparr>arrow_x = x0 + real ARROW_SPACING * real j,
                                   arrow_y = y0 + real ARROW_SPACING * real i,
                                   currentAngle = 0\<rparr>) [0..<cols]) [0..<rows])"

section \<open>Properties\<close>

subsection \<open>Angles\<close>

lemma atan2_range: "- pi < atan2 y x \<and> atan2 y x \<le> pi"
proof -
  have b: "- (pi / 2) < arctan (y / x)" "arctan (y / x) < pi / 2"
    by (rule arctan_lbound, rule arctan_ubound)
  have p: "0 < pi" by simp
  consider (pos) "0 < x" | (negup) "x < 0" "0 \<le> y" | (negdown) "x < 0" "y < 0"
    | (up) "x = 0" "0 < y" | (down) "x = 0" "y < 0" | (origin) "x = 0" "y = 0"
    by linarith
  then show ?thesis
  proof cases
    case pos
    then have "atan2 y x = arctan (y / x)" by (simp add: atan2_def)
    with b p show ?thesis by linarith
  next
    case negup
    then have "y / x \<le> 0" by (simp add: divide_nonneg_neg)
    then have "arctan (y / x) \<le> 0" by simp
    moreover from negup have "atan2 y x = arctan (y / x) + pi" by (simp add: atan2_def)
    ultimately show ?thesis using b p by linarith
  next
    case negdown
    then have "0 < y / x" by (simp add: divide_neg_neg)
    then have "0 < arctan (y / x)" by simp
    moreover from negdown have "atan2 y x = arctan (y / x) - pi" by (simp add: atan2_def)
    ultimately show ?thesis using b p by linarith
  next
    case up
    then have "atan2 y x = pi / 2" by (simp add: atan2_def)
    with p show ?thesis by linarith
  next
    case down
    then have "atan2 y x = - (pi / 2)" by (simp add: atan2_def)
    with p show ?thesis by linarith
  next
    case origin
    then have "atan2 y x = 0" by (simp add: atan2_def)
    with p show ?thesis by linarith
  qed
qed

lemma wrapAngle_range:
  assumes "- 3 * pi \<le> v" "v \<le> 3 * pi"
  shows "- pi \<le> wrapAngle v \<and> wrapAngle v \<le> pi"
  using assms pi_gt_zero by (auto simp: wrapAngle_def Let_def)


lemma wrapAngle_cases:
  "wrapAngle v = (if v > pi then v - 2 * pi else if v < - pi then v + 2 * pi else v)"
  using pi_gt_zero by (auto simp: wrapAngle_def Let_def)

lemma angleDiff_range:
  assumes "- pi < t" "t \<le> pi" "- pi \<le> c" "c \<le> pi"
  shows "- pi \<le> angleDiff t c \<and> angleDiff t c \<le> pi"
  unfolding angleDiff_def using assms by (intro wrapAngle_range) linarith+

lemma scaled_abs:
  fixes d k :: real
  assumes "0 \<le> k" "k \<le> 1"
  shows "\<bar>d * k\<bar> \<le> \<bar>d\<bar>"
proof -
  have "\<bar>d * k\<bar> = \<bar>d\<bar> * k" using assms by (simp add: abs_mult)
  also have "\<dots> \<le> \<bar>d\<bar> * 1" using assms by (intro mult_left_mono) simp_all
  finally show ?thesis by simp
qed

lemma preWrap_range:
  assumes t: "- pi < t" "t \<le> pi" and c: "- pi \<le> c" "c \<le> pi" and k: "0 \<le> k" "k \<le> 1"
  shows "- 2 * pi \<le> preWrapAngle k t c \<and> preWrapAngle k t c \<le> 2 * pi"
proof -
  define d where "d = angleDiff t c"
  have d: "- pi \<le> d" "d \<le> pi" using angleDiff_range[OF t c] by (simp_all add: d_def)
  have "\<bar>d * k\<bar> \<le> \<bar>d\<bar>" by (rule scaled_abs[OF k])
  with d c show ?thesis
    unfolding preWrapAngle_def d_def[symmetric] by linarith
qed

lemma stepAngle_range:
  assumes t: "- pi < t" "t \<le> pi" and c: "- pi \<le> c" "c \<le> pi" and k: "0 \<le> k" "k \<le> 1"
  shows "- pi \<le> stepAngle k t c \<and> stepAngle k t c \<le> pi"
  unfolding stepAngle_def using preWrap_range[OF t c k] pi_gt_zero
  by (intro wrapAngle_range) linarith+


lemma animateArrowWith_angle:
  "currentAngle (fst (animateArrowWith k m a)) =
     stepAngle k (atan2 (mouse_y m - arrow_y a) (mouse_x m - arrow_x a)) (currentAngle a)"
  by (simp add: animateArrowWith_def Let_def)

lemma animateArrowWith_pos:
  "arrow_x (fst (animateArrowWith k m a)) = arrow_x a \<and>
   arrow_y (fst (animateArrowWith k m a)) = arrow_y a"
  by (simp add: animateArrowWith_def Let_def)

text \<open>
  C3: the raw difference between the target angle (a value of \<open>atan2\<close>) and a current
  angle in \<open>[-\<pi>, \<pi>]\<close> is normalized by subtracting \<open>2\<pi>\<close> when it exceeds \<open>\<pi>\<close> and
  adding \<open>2\<pi>\<close> when it is below \<open>-\<pi>\<close>; the result lies in \<open>[-\<pi>, \<pi>]\<close>, and it is the
  difference the frame scales and adds to the current angle. For the current angle
  \<open>\<pi> - 0.01\<close> and the target \<open>-\<pi> + 0.01\<close> the result is \<open>0.02\<close>.
\<close>

theorem angleDiff_shortest_path:
  assumes "- pi \<le> cur" and "cur \<le> pi"
  shows "angleDiff (atan2 dy dx) cur =
           (if atan2 dy dx - cur > pi then atan2 dy dx - cur - 2 * pi
            else if atan2 dy dx - cur < - pi then atan2 dy dx - cur + 2 * pi
            else atan2 dy dx - cur)
         \<and> - pi \<le> angleDiff (atan2 dy dx) cur \<and> angleDiff (atan2 dy dx) cur \<le> pi
         \<and> currentAngle (fst (animateArrowWith k m a)) =
             wrapAngle (currentAngle a
               + angleDiff (atan2 (mouse_y m - arrow_y a) (mouse_x m - arrow_x a)) (currentAngle a) * k)
         \<and> angleDiff (- pi + 0.01) (pi - 0.01) = 0.02"
proof -
  have t: "- pi < atan2 dy dx" "atan2 dy dx \<le> pi" using atan2_range[of dy dx] by simp_all
  have 1: "angleDiff (atan2 dy dx) cur =
           (if atan2 dy dx - cur > pi then atan2 dy dx - cur - 2 * pi
            else if atan2 dy dx - cur < - pi then atan2 dy dx - cur + 2 * pi
            else atan2 dy dx - cur)"
    unfolding angleDiff_def by (rule wrapAngle_cases)
  have 2: "- pi \<le> angleDiff (atan2 dy dx) cur \<and> angleDiff (atan2 dy dx) cur \<le> pi"
    by (rule angleDiff_range[OF t assms])
  have e: "(- pi + 0.01) - (pi - 0.01) = 1 / 50 - 2 * pi" by simp
  have "wrapAngle (1 / 50 - 2 * pi) = 1 / 50"
    unfolding wrapAngle_def Let_def using pi_ge_two by (auto; linarith)
  then have 3: "angleDiff (- pi + 0.01) (pi - 0.01) = 0.02"
    unfolding angleDiff_def e by simp
  have 4: "currentAngle (fst (animateArrowWith k m a)) =
             wrapAngle (currentAngle a
               + angleDiff (atan2 (mouse_y m - arrow_y a) (mouse_x m - arrow_x a)) (currentAngle a) * k)"
    by (simp only: animateArrowWith_angle stepAngle_def preWrapAngle_def)
  from 1 2 3 4 show ?thesis by blast
qed

theorem angleDiff_shortest_path_witness:
  "- pi \<le> 0 \<and> 0 \<le> pi
   \<and> - pi \<le> angleDiff (atan2 100 0) 0 \<and> angleDiff (atan2 100 0) 0 \<le> pi"
proof -
  have h: "- pi \<le> 0" "(0::real) \<le> pi" by simp_all
  from angleDiff_shortest_path[OF h, of 100 0] h show ?thesis by blast
qed

text \<open>
  C10: one frame takes a current angle in the closed interval \<open>[-\<pi>, \<pi>]\<close> to a current
  angle in \<open>[-\<pi>, \<pi>]\<close>, for every mouse position: the value before the second wrap lies
  strictly between \<open>-2\<pi>\<close> and \<open>2\<pi>\<close>, so one pass of the wrap is enough, and the wrap
  leaves \<open>-\<pi>\<close> as it is.
\<close>

theorem frame_keeps_closed_interval:
  assumes "- pi \<le> currentAngle a" and "currentAngle a \<le> pi"
  shows "- pi \<le> currentAngle (fst (animateArrow m a))
         \<and> currentAngle (fst (animateArrow m a)) \<le> pi
         \<and> - 2 * pi < preWrapAngle SMOOTHING_FACTOR
               (atan2 (mouse_y m - arrow_y a) (mouse_x m - arrow_x a)) (currentAngle a)
         \<and> preWrapAngle SMOOTHING_FACTOR
               (atan2 (mouse_y m - arrow_y a) (mouse_x m - arrow_x a)) (currentAngle a) < 2 * pi
         \<and> wrapAngle (- pi) = - pi"
proof -
  define t where "t = atan2 (mouse_y m - arrow_y a) (mouse_x m - arrow_x a)"
  have t: "- pi < t" "t \<le> pi" using atan2_range by (simp_all add: t_def)
  have k: "0 \<le> SMOOTHING_FACTOR" "SMOOTHING_FACTOR \<le> 1" by (simp_all add: SMOOTHING_FACTOR_def)
  have 1: "- pi \<le> stepAngle SMOOTHING_FACTOR t (currentAngle a)
           \<and> stepAngle SMOOTHING_FACTOR t (currentAngle a) \<le> pi"
    by (rule stepAngle_range[OF t assms k])
  have d: "- pi \<le> angleDiff t (currentAngle a)" "angleDiff t (currentAngle a) \<le> pi"
    using angleDiff_range[OF t assms] by simp_all
  have 2: "- 2 * pi < preWrapAngle SMOOTHING_FACTOR t (currentAngle a)
           \<and> preWrapAngle SMOOTHING_FACTOR t (currentAngle a) < 2 * pi"
  proof -
    have "preWrapAngle SMOOTHING_FACTOR t (currentAngle a)
            = currentAngle a + angleDiff t (currentAngle a) / 20"
      by (simp add: preWrapAngle_def SMOOTHING_FACTOR_def)
    with d assms pi_gt_zero show ?thesis by linarith
  qed
  have 3: "wrapAngle (- pi) = - pi" by (simp add: wrapAngle_def Let_def)
  from 1 2 3 show ?thesis
    by (simp add: animateArrow_def animateArrowWith_angle t_def)
qed

theorem frame_keeps_closed_interval_witness:
  "- pi \<le> currentAngle \<lparr>arrow_x = 25, arrow_y = 25, currentAngle = 0\<rparr>
   \<and> currentAngle \<lparr>arrow_x = 25, arrow_y = 25, currentAngle = 0\<rparr> \<le> pi
   \<and> - pi \<le> currentAngle (fst (animateArrow \<lparr>mouse_x = 0, mouse_y = 0\<rparr>
                                   \<lparr>arrow_x = 25, arrow_y = 25, currentAngle = 0\<rparr>))
   \<and> currentAngle (fst (animateArrow \<lparr>mouse_x = 0, mouse_y = 0\<rparr>
                            \<lparr>arrow_x = 25, arrow_y = 25, currentAngle = 0\<rparr>)) \<le> pi"
  using frame_keeps_closed_interval
          [of "\<lparr>arrow_x = 25, arrow_y = 25, currentAngle = 0\<rparr>" "\<lparr>mouse_x = 0, mouse_y = 0\<rparr>"]
  by simp













subsection \<open>The grid\<close>

declare innerLoop.simps [simp del] outerLoop.simps [simp del]

lemma split_extent: "real w = 50 * real (w div 50) + real (w mod 50)"
proof -
  have "real (50 * (w div 50) + w mod 50) = real w" by (simp only: mult_div_mod_eq)
  then show ?thesis by (simp only: of_nat_add of_nat_mult of_nat_numeral)
qed

lemma loop_guard:
  "25 + real (w mod 50) / 2 + 50 * real j < real w \<longleftrightarrow> j < w div 50"
proof -
  have r: "real (w mod 50) < 50" "0 \<le> real (w mod 50)" by simp_all
  show ?thesis
  proof
    assume a: "25 + real (w mod 50) / 2 + 50 * real j < real w"
    show "j < w div 50"
    proof (rule ccontr)
      assume "\<not> j < w div 50"
      then have "real (w div 50) \<le> real j" by simp
      with a r split_extent[of w] show False by linarith
    qed
  next
    assume "j < w div 50"
    then have "real j + 1 \<le> real (w div 50)" by linarith
    with r split_extent[of w] show "25 + real (w mod 50) / 2 + 50 * real j < real w"
      by linarith
  qed
qed

lemma innerLoop_eq:
  "j \<le> w div 50 \<Longrightarrow>
   innerLoop w y (25 + real (w mod 50) / 2 + 50 * real j) =
     map (\<lambda>i. \<lparr>arrow_x = 25 + real (w mod 50) / 2 + 50 * real i, arrow_y = y, currentAngle = 0\<rparr>)
       [j..<w div 50]"
proof (induction "w div 50 - j" arbitrary: j)
  case 0
  then have "\<not> j < w div 50" by simp
  then have "\<not> 25 + real (w mod 50) / 2 + 50 * real j < real w" using loop_guard by blast
  with 0 show ?case by (subst innerLoop.simps) simp
next
  case (Suc n)
  then have lt: "j < w div 50" by simp
  then have g: "25 + real (w mod 50) / 2 + 50 * real j < real w" by (simp only: loop_guard)
  have nx: "25 + real (w mod 50) / 2 + 50 * real j + real ARROW_SPACING
            = 25 + real (w mod 50) / 2 + 50 * real (Suc j)"
    by (simp add: ARROW_SPACING_def)
  from Suc lt have ih: "innerLoop w y (25 + real (w mod 50) / 2 + 50 * real (Suc j)) =
     map (\<lambda>i. \<lparr>arrow_x = 25 + real (w mod 50) / 2 + 50 * real i, arrow_y = y, currentAngle = 0\<rparr>)
       [Suc j..<w div 50]"
    by (intro Suc.hyps(1)) simp_all
  show ?case
    by (subst innerLoop.simps) (simp only: g if_True nx ih upt_conv_Cons[OF lt] list.map)
qed

lemma outerLoop_eq:
  "i \<le> h div 50 \<Longrightarrow>
   outerLoop w h x0 (25 + real (h mod 50) / 2 + 50 * real i) =
     concat (map (\<lambda>i. innerLoop w (25 + real (h mod 50) / 2 + 50 * real i) x0) [i..<h div 50])"
proof (induction "h div 50 - i" arbitrary: i)
  case 0
  then have "\<not> i < h div 50" by simp
  then have "\<not> 25 + real (h mod 50) / 2 + 50 * real i < real h" using loop_guard by blast
  with 0 show ?case by (subst outerLoop.simps) simp
next
  case (Suc n)
  then have lt: "i < h div 50" by simp
  then have g: "25 + real (h mod 50) / 2 + 50 * real i < real h" by (simp only: loop_guard)
  have nx: "25 + real (h mod 50) / 2 + 50 * real i + real ARROW_SPACING
            = 25 + real (h mod 50) / 2 + 50 * real (Suc i)"
    by (simp add: ARROW_SPACING_def)
  from Suc lt have ih: "outerLoop w h x0 (25 + real (h mod 50) / 2 + 50 * real (Suc i)) =
     concat (map (\<lambda>i. innerLoop w (25 + real (h mod 50) / 2 + 50 * real i) x0) [Suc i..<h div 50])"
    by (intro Suc.hyps(1)) simp_all
  show ?case
    by (subst outerLoop.simps) (simp only: g if_True nx ih upt_conv_Cons[OF lt] list.map concat.simps)
qed

lemma newGridPositions_eq:
  "newGridPositions w h =
     gridOf (h div ARROW_SPACING) (w div ARROW_SPACING)
       (real ARROW_SPACING / 2 + real (w mod ARROW_SPACING) / 2)
       (real ARROW_SPACING / 2 + real (h mod ARROW_SPACING) / 2)"
proof -
  have "newGridPositions w h =
          outerLoop w h (25 + real (w mod 50) / 2 + 50 * real (0::nat))
            (25 + real (h mod 50) / 2 + 50 * real (0::nat))"
    by (simp add: newGridPositions_def ARROW_SPACING_def Let_def)
  also have "\<dots> = concat (map (\<lambda>i. innerLoop w (25 + real (h mod 50) / 2 + 50 * real i)
                      (25 + real (w mod 50) / 2 + 50 * real (0::nat))) [0..<h div 50])"
    by (rule outerLoop_eq) simp
  also have "\<dots> = gridOf (h div 50) (w div 50) (25 + real (w mod 50) / 2) (25 + real (h mod 50) / 2)"
    unfolding gridOf_def by (subst innerLoop_eq) (simp_all add: ARROW_SPACING_def)
  finally show ?thesis by (simp add: ARROW_SPACING_def)
qed

lemma length_gridOf: "length (gridOf rows cols x0 y0) = rows * cols"
  by (simp add: gridOf_def length_concat comp_def sum_list_triv)

lemma gridOf_angles: "a \<in> set (gridOf rows cols x0 y0) \<Longrightarrow> currentAngle a = 0"
  by (auto simp: gridOf_def)

lemma gridOf_no_rows: "gridOf 0 cols x0 y0 = []"
  by (simp add: gridOf_def)

lemma gridOf_no_cols: "gridOf rows 0 x0 y0 = []"
  by (simp add: gridOf_def)

subsection \<open>The half-open interval\<close>

text \<open>
  C2 (as stated) fails: the arrow at \<open>(300, 200)\<close> with current angle \<open>-37\<pi>/38\<close>, which is
  in \<open>(-\<pi>, \<pi>]\<close>, and the mouse at \<open>(300, 300)\<close>: the frame leaves the current angle at
  \<open>-\<pi>\<close>, outside the half-open interval.
\<close>

theorem half_open_interval_counterexample:
  "(- pi < - (37 * pi / 38) \<and> - (37 * pi / 38) \<le> pi)
   \<and> \<not> (- pi < currentAngle (fst (animateArrow \<lparr>mouse_x = 300, mouse_y = 300\<rparr>
                  \<lparr>arrow_x = 300, arrow_y = 200, currentAngle = - (37 * pi / 38)\<rparr>)))"
proof -
  have t: "atan2 100 0 = pi / 2" by (simp add: atan2_def)
  have "pi / 2 - - (37 * pi / 38) = 28 * pi / 19" by simp
  moreover have "wrapAngle (28 * pi / 19) = - (10 * pi / 19)"
    unfolding wrapAngle_def Let_def using pi_gt_zero by auto
  ultimately have d: "angleDiff (pi / 2) (- (37 * pi / 38)) = - (10 * pi / 19)"
    by (simp only: angleDiff_def)
  have p: "preWrapAngle SMOOTHING_FACTOR (pi / 2) (- (37 * pi / 38)) = - pi"
    unfolding preWrapAngle_def d SMOOTHING_FACTOR_def by simp
  have w: "wrapAngle (- pi) = - pi" by (simp add: wrapAngle_def Let_def)
  have s: "stepAngle SMOOTHING_FACTOR (pi / 2) (- (37 * pi / 38)) = - pi"
    unfolding stepAngle_def p w ..
  have "currentAngle (fst (animateArrow \<lparr>mouse_x = 300, mouse_y = 300\<rparr>
                  \<lparr>arrow_x = 300, arrow_y = 200, currentAngle = - (37 * pi / 38)\<rparr>))
          = stepAngle SMOOTHING_FACTOR (atan2 100 0) (- (37 * pi / 38))"
    by (simp add: animateArrow_def animateArrowWith_angle)
  also have "\<dots> = - pi" unfolding t by (rule s)
  finally have "currentAngle (fst (animateArrow \<lparr>mouse_x = 300, mouse_y = 300\<rparr>
                  \<lparr>arrow_x = 300, arrow_y = 200, currentAngle = - (37 * pi / 38)\<rparr>)) = - pi" .
  then have "\<not> (- pi < currentAngle (fst (animateArrow \<lparr>mouse_x = 300, mouse_y = 300\<rparr>
                  \<lparr>arrow_x = 300, arrow_y = 200, currentAngle = - (37 * pi / 38)\<rparr>)))"
    by simp
  moreover have "- pi < - (37 * pi / 38)" "- (37 * pi / 38) \<le> pi"
    using pi_gt_zero by linarith+
  ultimately show ?thesis by blast
qed

lemma animateArrow_range:
  assumes "- pi \<le> currentAngle b" and "currentAngle b \<le> pi"
  shows "- pi \<le> currentAngle (fst (animateArrow m b)) \<and> currentAngle (fst (animateArrow m b)) \<le> pi"
proof -
  have t: "- pi < atan2 (mouse_y m - arrow_y b) (mouse_x m - arrow_x b)"
          "atan2 (mouse_y m - arrow_y b) (mouse_x m - arrow_x b) \<le> pi"
    using atan2_range by simp_all
  have k: "0 \<le> SMOOTHING_FACTOR" "SMOOTHING_FACTOR \<le> 1" by (simp_all add: SMOOTHING_FACTOR_def)
  from stepAngle_range[OF t assms k] show ?thesis
    by (simp add: animateArrow_def animateArrowWith_angle)
qed

lemma newGridPositions_angles: "a \<in> set (newGridPositions w h) \<Longrightarrow> currentAngle a = 0"
  by (simp add: newGridPositions_eq gridOf_angles)

lemma handleEvent_range:
  assumes "\<forall>a \<in> set (arrowGridPositions c). - pi \<le> currentAngle a \<and> currentAngle a \<le> pi"
  shows "\<forall>a \<in> set (arrowGridPositions (handleEvent c e)). - pi \<le> currentAngle a \<and> currentAngle a \<le> pi"
proof (cases e)
  case (Resize w h)
  show ?thesis
  proof (cases "canvasRef c")
    case None
    with Resize assms show ?thesis by (simp add: setCanvasAndGrid_def)
  next
    case (Some cv)
    with Resize show ?thesis
      using pi_ge_zero by (auto simp: setCanvasAndGrid_def Let_def dest: newGridPositions_angles)
  qed
next
  case (MouseMove x y)
  with assms show ?thesis by (simp add: handleMouseMove_def)
next
  case Frame
  with assms show ?thesis
    by (auto simp: animate_def Let_def animateArrow_range split: option.split)
qed

lemma runEvents_range:
  assumes "\<forall>a \<in> set (arrowGridPositions c). - pi \<le> currentAngle a \<and> currentAngle a \<le> pi"
  shows "\<forall>a \<in> set (arrowGridPositions (runEvents c es)). - pi \<le> currentAngle a \<and> currentAngle a \<le> pi"
  using assms unfolding runEvents_def
proof (induction es arbitrary: c)
  case Nil
  then show ?case by simp
next
  case (Cons e es)
  from handleEvent_range[OF Cons.prems] have
    "\<forall>a \<in> set (arrowGridPositions (handleEvent c e)). - pi \<le> currentAngle a \<and> currentAngle a \<le> pi" .
  from Cons.IH[OF this] show ?case by simp
qed

text \<open>
  C2 (amended): the current angle of every arrow always lies in the closed interval
  \<open>[-\<pi>, \<pi>]\<close>. It is \<open>0\<close> for every arrow the grid builder makes; one frame takes a current
  angle in \<open>[-\<pi>, \<pi>]\<close> to a current angle in \<open>[-\<pi>, \<pi>]\<close>, for every mouse position; and
  after any sequence of resizes, mouse moves and frames, from the mounted component on,
  every arrow of the grid has its current angle in \<open>[-\<pi>, \<pi>]\<close>.
\<close>

theorem currentAngle_always_normalized:
  "(\<forall>a \<in> set (newGridPositions w h). currentAngle a = 0)
   \<and> (- pi \<le> currentAngle b \<and> currentAngle b \<le> pi \<longrightarrow>
        - pi \<le> currentAngle (fst (animateArrow m b)) \<and> currentAngle (fst (animateArrow m b)) \<le> pi)
   \<and> (\<forall>a \<in> set (arrowGridPositions (runEvents (initialComponent cv) es)).
        - pi \<le> currentAngle a \<and> currentAngle a \<le> pi)"
proof -
  have 1: "\<forall>a \<in> set (newGridPositions w h). currentAngle a = 0"
    by (simp add: newGridPositions_angles)
  have 2: "- pi \<le> currentAngle b \<and> currentAngle b \<le> pi \<longrightarrow>
        - pi \<le> currentAngle (fst (animateArrow m b)) \<and> currentAngle (fst (animateArrow m b)) \<le> pi"
    using animateArrow_range by blast
  have "\<forall>a \<in> set (arrowGridPositions (initialComponent cv)). - pi \<le> currentAngle a \<and> currentAngle a \<le> pi"
    by (simp add: initialComponent_def)
  then have 3: "\<forall>a \<in> set (arrowGridPositions (runEvents (initialComponent cv) es)).
        - pi \<le> currentAngle a \<and> currentAngle a \<le> pi"
    by (rule runEvents_range)
  from 1 2 3 show ?thesis by blast
qed

lemma run_example:
  "arrowGridPositions
     (runEvents (initialComponent (Some \<lparr>width = 300, height = 150, context2d = True\<rparr>))
        [Resize 50 50, MouseMove 25 125, Frame])
   = [fst (animateArrow \<lparr>mouse_x = 25, mouse_y = 125\<rparr>
             \<lparr>arrow_x = 25, arrow_y = 25, currentAngle = 0\<rparr>)]"
proof -
  have g: "newGridPositions 50 50 = [\<lparr>arrow_x = 25, arrow_y = 25, currentAngle = 0\<rparr>]"
    by (simp add: newGridPositions_eq gridOf_def ARROW_SPACING_def)
  show ?thesis
    by (simp add: runEvents_def initialComponent_def setCanvasAndGrid_def handleMouseMove_def
          animate_def Let_def g)
qed

theorem currentAngle_always_normalized_witness:
  "\<lparr>arrow_x = 25, arrow_y = 25, currentAngle = 0\<rparr> \<in> set (newGridPositions 50 50)
   \<and> currentAngle \<lparr>arrow_x = 25, arrow_y = 25, currentAngle = 0\<rparr> = 0
   \<and> - pi \<le> currentAngle \<lparr>arrow_x = 25, arrow_y = 25, currentAngle = - pi\<rparr>
   \<and> currentAngle \<lparr>arrow_x = 25, arrow_y = 25, currentAngle = - pi\<rparr> \<le> pi
   \<and> - pi \<le> currentAngle (fst (animateArrow \<lparr>mouse_x = 25, mouse_y = 125\<rparr>
                   \<lparr>arrow_x = 25, arrow_y = 25, currentAngle = - pi\<rparr>))
   \<and> currentAngle (fst (animateArrow \<lparr>mouse_x = 25, mouse_y = 125\<rparr>
                   \<lparr>arrow_x = 25, arrow_y = 25, currentAngle = - pi\<rparr>)) \<le> pi
   \<and> fst (animateArrow \<lparr>mouse_x = 25, mouse_y = 125\<rparr>
             \<lparr>arrow_x = 25, arrow_y = 25, currentAngle = 0\<rparr>)
       \<in> set (arrowGridPositions
            (runEvents (initialComponent (Some \<lparr>width = 300, height = 150, context2d = True\<rparr>))
               [Resize 50 50, MouseMove 25 125, Frame]))
   \<and> - pi \<le> currentAngle (fst (animateArrow \<lparr>mouse_x = 25, mouse_y = 125\<rparr>
                   \<lparr>arrow_x = 25, arrow_y = 25, currentAngle = 0\<rparr>))
   \<and> currentAngle (fst (animateArrow \<lparr>mouse_x = 25, mouse_y = 125\<rparr>
                   \<lparr>arrow_x = 25, arrow_y = 25, currentAngle = 0\<rparr>)) \<le> pi"
proof -
  have g: "newGridPositions 50 50 = [\<lparr>arrow_x = 25, arrow_y = 25, currentAngle = 0\<rparr>]"
    by (simp add: newGridPositions_eq gridOf_def ARROW_SPACING_def)
  note th = currentAngle_always_normalized
    [of 50 50 "\<lparr>arrow_x = 25, arrow_y = 25, currentAngle = - pi\<rparr>"
        "\<lparr>mouse_x = 25, mouse_y = 125\<rparr>"
        "Some \<lparr>width = 300, height = 150, context2d = True\<rparr>"
        "[Resize 50 50, MouseMove 25 125, Frame]"]
  have p: "- pi \<le> currentAngle \<lparr>arrow_x = 25, arrow_y = 25, currentAngle = - pi\<rparr>"
          "currentAngle \<lparr>arrow_x = 25, arrow_y = 25, currentAngle = - pi\<rparr> \<le> pi"
    by simp_all
  from th p have one:
    "- pi \<le> currentAngle (fst (animateArrow \<lparr>mouse_x = 25, mouse_y = 125\<rparr>
                   \<lparr>arrow_x = 25, arrow_y = 25, currentAngle = - pi\<rparr>))
     \<and> currentAngle (fst (animateArrow \<lparr>mouse_x = 25, mouse_y = 125\<rparr>
                   \<lparr>arrow_x = 25, arrow_y = 25, currentAngle = - pi\<rparr>)) \<le> pi"
    by blast
  have mem: "fst (animateArrow \<lparr>mouse_x = 25, mouse_y = 125\<rparr>
             \<lparr>arrow_x = 25, arrow_y = 25, currentAngle = 0\<rparr>)
       \<in> set (arrowGridPositions
            (runEvents (initialComponent (Some \<lparr>width = 300, height = 150, context2d = True\<rparr>))
               [Resize 50 50, MouseMove 25 125, Frame]))"
    by (simp only: run_example list.set insertI1)
  from th mem have run:
    "- pi \<le> currentAngle (fst (animateArrow \<lparr>mouse_x = 25, mouse_y = 125\<rparr>
                   \<lparr>arrow_x = 25, arrow_y = 25, currentAngle = 0\<rparr>))
     \<and> currentAngle (fst (animateArrow \<lparr>mouse_x = 25, mouse_y = 125\<rparr>
                   \<lparr>arrow_x = 25, arrow_y = 25, currentAngle = 0\<rparr>)) \<le> pi"
    by blast
  have g0: "\<lparr>arrow_x = 25, arrow_y = 25, currentAngle = 0\<rparr> \<in> set (newGridPositions 50 50)"
    by (simp add: g)
  have z: "currentAngle \<lparr>arrow_x = 25, arrow_y = 25, currentAngle = 0\<rparr> = 0" by simp
  from g0 z p one mem run show ?thesis by blast
qed

lemma gridOf_first:
  "0 < rows \<Longrightarrow> 0 < cols \<Longrightarrow>
   hd (gridOf rows cols x0 y0) = \<lparr>arrow_x = x0, arrow_y = y0, currentAngle = 0\<rparr>"
  by (simp add: gridOf_def upt_conv_Cons)

text \<open>
  C6: for a canvas of 500 by 500 the grid builder makes 10 rows of 10 arrows, 100 in all,
  the first at \<open>(25, 25)\<close> and neighbours 50 apart. For every width \<open>w\<close> and height \<open>h\<close>
  it makes \<open>h div ARROW_SPACING\<close> rows of \<open>w div ARROW_SPACING\<close> arrows, and every arrow
  it makes has current angle \<open>0\<close>.
\<close>

theorem grid_rebuild:
  "newGridPositions 500 500 = gridOf 10 10 25 25
   \<and> length (newGridPositions 500 500) = 100
   \<and> hd (newGridPositions 500 500) = \<lparr>arrow_x = 25, arrow_y = 25, currentAngle = 0\<rparr>
   \<and> real ARROW_SPACING = 50
   \<and> newGridPositions w h =
       gridOf (h div ARROW_SPACING) (w div ARROW_SPACING)
         (real ARROW_SPACING / 2 + real (w mod ARROW_SPACING) / 2)
         (real ARROW_SPACING / 2 + real (h mod ARROW_SPACING) / 2)
   \<and> length (newGridPositions w h) = (h div ARROW_SPACING) * (w div ARROW_SPACING)
   \<and> (\<forall>a \<in> set (newGridPositions w h). currentAngle a = 0)"
proof -
  have g: "newGridPositions 500 500 = gridOf 10 10 25 25"
    by (simp add: newGridPositions_eq ARROW_SPACING_def)
  have l: "length (newGridPositions 500 500) = 100"
    unfolding g by (simp add: length_gridOf)
  have f: "hd (newGridPositions 500 500) = \<lparr>arrow_x = 25, arrow_y = 25, currentAngle = 0\<rparr>"
    unfolding g by (rule gridOf_first) simp_all
  have s: "real ARROW_SPACING = 50" by (simp add: ARROW_SPACING_def)
  have n: "length (newGridPositions w h) = (h div ARROW_SPACING) * (w div ARROW_SPACING)"
    by (simp only: newGridPositions_eq length_gridOf)
  have z: "\<forall>a \<in> set (newGridPositions w h). currentAngle a = 0"
    by (simp add: newGridPositions_eq gridOf_angles)
  from g l f s n z newGridPositions_eq[of w h] show ?thesis by blast
qed

theorem grid_rebuild_witness:
  "newGridPositions 150 100 =
     [\<lparr>arrow_x = 25, arrow_y = 25, currentAngle = 0\<rparr>,
      \<lparr>arrow_x = 75, arrow_y = 25, currentAngle = 0\<rparr>,
      \<lparr>arrow_x = 125, arrow_y = 25, currentAngle = 0\<rparr>,
      \<lparr>arrow_x = 25, arrow_y = 75, currentAngle = 0\<rparr>,
      \<lparr>arrow_x = 75, arrow_y = 75, currentAngle = 0\<rparr>,
      \<lparr>arrow_x = 125, arrow_y = 75, currentAngle = 0\<rparr>]
   \<and> \<lparr>arrow_x = 125, arrow_y = 75, currentAngle = 0\<rparr> \<in> set (newGridPositions 150 100)
   \<and> currentAngle \<lparr>arrow_x = 125, arrow_y = 75, currentAngle = 0\<rparr> = 0"
proof -
  have u2: "[0..<2] = [0, Suc 0]" and u3: "[0..<3] = [0, Suc 0, Suc (Suc 0)]"
    by (simp_all add: upt_conv_Cons)
  have "newGridPositions 150 100 = gridOf 2 3 25 25"
    using grid_rebuild[of 150 100] by (simp add: ARROW_SPACING_def)
  then show ?thesis by (simp add: gridOf_def u2 u3 ARROW_SPACING_def)
qed

text \<open>
  C7: when the width or the height is \<open>0\<close> or less than the spacing, the grid builder
  returns the empty list, and \<open>setCanvasAndGrid\<close> stores it as the grid: an ordinary
  result of a total function.
\<close>

theorem small_viewport_empty_grid:
  assumes "w < ARROW_SPACING \<or> h < ARROW_SPACING"
  shows "newGridPositions w h = []
         \<and> (canvasRef c \<noteq> None \<longrightarrow> arrowGridPositions (setCanvasAndGrid w h c) = [])"
proof -
  from assms have "w div ARROW_SPACING = 0 \<or> h div ARROW_SPACING = 0" by auto
  then have "newGridPositions w h = []"
    by (auto simp: newGridPositions_eq gridOf_no_rows gridOf_no_cols)
  then show ?thesis by (auto simp: setCanvasAndGrid_def Let_def)
qed

theorem small_viewport_empty_grid_witness:
  "(0 < ARROW_SPACING \<and> 49 < ARROW_SPACING)
   \<and> newGridPositions 0 500 = [] \<and> newGridPositions 500 49 = []
   \<and> arrowGridPositions
        (setCanvasAndGrid 0 0
           \<lparr>canvasRef = Some \<lparr>width = 300, height = 150, context2d = True\<rparr>,
            targetMousePos = \<lparr>mouse_x = 0, mouse_y = 0\<rparr>,
            arrowGridPositions = [\<lparr>arrow_x = 25, arrow_y = 25, currentAngle = 1\<rparr>]\<rparr>) = []"
proof -
  have a: "0 < ARROW_SPACING \<or> 500 < ARROW_SPACING" "500 < ARROW_SPACING \<or> 49 < ARROW_SPACING"
          "0 < ARROW_SPACING \<or> 0 < ARROW_SPACING"
    by (simp_all add: ARROW_SPACING_def)
  from small_viewport_empty_grid[OF a(1)] small_viewport_empty_grid[OF a(2)]
    small_viewport_empty_grid[OF a(3),
      of "\<lparr>canvasRef = Some \<lparr>width = 300, height = 150, context2d = True\<rparr>,
            targetMousePos = \<lparr>mouse_x = 0, mouse_y = 0\<rparr>,
            arrowGridPositions = [\<lparr>arrow_x = 25, arrow_y = 25, currentAngle = 1\<rparr>]\<rparr>"]
  show ?thesis by (simp add: ARROW_SPACING_def)
qed

subsection \<open>Opacity\<close>

lemma opacityAt_closed:
  "opacityAt d = (if d \<le> 100 then 1 else if 200 \<le> d then 1 / 100
                  else 1 - (99 / 100) * ((d - 100) / 100))"
proof -
  consider (near) "d \<le> 100" | (mid) "100 < d" "d < 200" | (far) "200 \<le> d" by linarith
  then show ?thesis
  proof cases
    case near
    then show ?thesis
      by (simp add: opacityAt_def FADE_START_DISTANCE_def MAX_OPACITY_def MIN_OPACITY_def)
  next
    case mid
    then have m: "min 1 ((d - 100) / 100) = (d - 100) / 100" by (simp add: min_def)
    from mid have b: "1 / 100 \<le> 1 - (99 / 100) * ((d - 100) / 100)"
                     "1 - (99 / 100) * ((d - 100) / 100) \<le> 1" by simp_all
    from mid show ?thesis
      unfolding opacityAt_def FADE_START_DISTANCE_def FADE_END_DISTANCE_def
        MAX_OPACITY_def MIN_OPACITY_def Let_def
      using m b by (simp add: min_def max_def)
  next
    case far
    then have m: "min 1 ((d - 100) / 100) = 1" by (simp add: min_def)
    from far show ?thesis
      unfolding opacityAt_def FADE_START_DISTANCE_def FADE_END_DISTANCE_def
        MAX_OPACITY_def MIN_OPACITY_def Let_def
      using m by (simp add: min_def max_def)
  qed
qed

text \<open>
  C5: the opacity does not increase with the distance, and for every real distance,
  negative or large, it lies in \<open>[MIN_OPACITY, MAX_OPACITY]\<close>.
\<close>

theorem opacity_monotone_bounded:
  "(d1 < d2 \<longrightarrow> opacityAt d2 \<le> opacityAt d1)
   \<and> MIN_OPACITY \<le> opacityAt d \<and> opacityAt d \<le> MAX_OPACITY"
proof -
  have 1: "opacityAt d2 \<le> opacityAt d1" if "d1 < d2"
    using that by (simp add: opacityAt_closed)
  have 2: "MIN_OPACITY \<le> opacityAt d" "opacityAt d \<le> MAX_OPACITY"
    by (simp_all add: opacityAt_closed MIN_OPACITY_def MAX_OPACITY_def)
  from 1 2 show ?thesis by blast
qed

theorem opacity_monotone_bounded_witness:
  "(120::real) < 180 \<and> opacityAt 180 \<le> opacityAt 120
   \<and> MIN_OPACITY \<le> opacityAt (- 5) \<and> opacityAt (- 5) \<le> MAX_OPACITY"
  using opacity_monotone_bounded[of 120 180 "- 5"] by simp

subsection \<open>Opacity in double arithmetic\<close>















































subsection \<open>The whole frame\<close>

lemma animateArrow_pos:
  "arrow_x (fst (animateArrow m a)) = arrow_x a \<and> arrow_y (fst (animateArrow m a)) = arrow_y a"
  by (simp add: animateArrow_def animateArrowWith_pos)

lemma atan2_origin: "atan2 0 0 = 0"
  by (simp add: atan2_def)

lemma hypot_origin: "hypot 0 0 = 0"
  by (simp add: hypot_def)

lemma opacityAt_origin: "opacityAt 0 = MAX_OPACITY"
  by (simp add: opacityAt_def FADE_START_DISTANCE_def MAX_OPACITY_def MIN_OPACITY_def)

lemma animateArrow_on_cell:
  "animateArrow \<lparr>mouse_x = arrow_x a, mouse_y = arrow_y a\<rparr> a =
     (a\<lparr>currentAngle := stepAngle SMOOTHING_FACTOR 0 (currentAngle a)\<rparr>,
      \<lparr>draw_x = arrow_x a, draw_y = arrow_y a,
       draw_angle = stepAngle SMOOTHING_FACTOR 0 (currentAngle a),
       globalAlpha = MAX_OPACITY\<rparr>)"
  by (simp add: animateArrow_def animateArrowWith_def Let_def atan2_origin hypot_origin
        opacityAt_origin)

lemma animate_draws:
  "canvasRef c = Some cv \<Longrightarrow> context2d cv \<Longrightarrow>
   snd (animate c) = map (\<lambda>a. snd (animateArrow (targetMousePos c) a)) (arrowGridPositions c)"
  by (simp add: animate_def Let_def comp_def)

text \<open>
  C8: when the mouse is exactly on an arrow of the grid, the frame runs as for any other
  arrow: the target angle is \<open>atan2 0 0 = 0\<close>, the distance is \<open>0\<close>, the opacity is
  \<open>MAX_OPACITY\<close>, and the draw call for the arrow is among the draw calls of the frame,
  which has one draw call for each arrow.
\<close>

theorem pointer_on_cell:
  assumes "canvasRef c = Some cv" and "context2d cv"
    and "a \<in> set (arrowGridPositions c)"
    and "targetMousePos c = \<lparr>mouse_x = arrow_x a, mouse_y = arrow_y a\<rparr>"
  shows "atan2 (mouse_y (targetMousePos c) - arrow_y a) (mouse_x (targetMousePos c) - arrow_x a) = 0
         \<and> hypot (mouse_x (targetMousePos c) - arrow_x a) (mouse_y (targetMousePos c) - arrow_y a) = 0
         \<and> animateArrow (targetMousePos c) a =
             (a\<lparr>currentAngle := stepAngle SMOOTHING_FACTOR 0 (currentAngle a)\<rparr>,
              \<lparr>draw_x = arrow_x a, draw_y = arrow_y a,
               draw_angle = stepAngle SMOOTHING_FACTOR 0 (currentAngle a),
               globalAlpha = MAX_OPACITY\<rparr>)
         \<and> \<lparr>draw_x = arrow_x a, draw_y = arrow_y a,
             draw_angle = stepAngle SMOOTHING_FACTOR 0 (currentAngle a),
             globalAlpha = MAX_OPACITY\<rparr> \<in> set (snd (animate c))
         \<and> length (snd (animate c)) = length (arrowGridPositions c)"
proof -
  have 1: "atan2 (mouse_y (targetMousePos c) - arrow_y a) (mouse_x (targetMousePos c) - arrow_x a) = 0"
    by (simp add: assms(4) atan2_origin)
  have 2: "hypot (mouse_x (targetMousePos c) - arrow_x a) (mouse_y (targetMousePos c) - arrow_y a) = 0"
    by (simp add: assms(4) hypot_origin)
  have 3: "animateArrow (targetMousePos c) a =
             (a\<lparr>currentAngle := stepAngle SMOOTHING_FACTOR 0 (currentAngle a)\<rparr>,
              \<lparr>draw_x = arrow_x a, draw_y = arrow_y a,
               draw_angle = stepAngle SMOOTHING_FACTOR 0 (currentAngle a),
               globalAlpha = MAX_OPACITY\<rparr>)"
    unfolding assms(4) by (rule animateArrow_on_cell)
  have d: "snd (animate c) = map (\<lambda>a. snd (animateArrow (targetMousePos c) a)) (arrowGridPositions c)"
    by (rule animate_draws[OF assms(1,2)])
  have "snd (animateArrow (targetMousePos c) a) \<in> set (snd (animate c))"
    unfolding d using assms(3) by simp
  then have 4: "\<lparr>draw_x = arrow_x a, draw_y = arrow_y a,
             draw_angle = stepAngle SMOOTHING_FACTOR 0 (currentAngle a),
             globalAlpha = MAX_OPACITY\<rparr> \<in> set (snd (animate c))"
    by (simp add: 3)
  have 5: "length (snd (animate c)) = length (arrowGridPositions c)"
    unfolding d by simp
  from 1 2 3 4 5 show ?thesis by blast
qed

theorem pointer_on_cell_witness:
  "\<lparr>draw_x = 75, draw_y = 25, draw_angle = stepAngle SMOOTHING_FACTOR 0 0,
     globalAlpha = MAX_OPACITY\<rparr>
   \<in> set (snd (animate
        \<lparr>canvasRef = Some \<lparr>width = 100, height = 50, context2d = True\<rparr>,
         targetMousePos = \<lparr>mouse_x = 75, mouse_y = 25\<rparr>,
         arrowGridPositions = [\<lparr>arrow_x = 25, arrow_y = 25, currentAngle = 0\<rparr>,
                               \<lparr>arrow_x = 75, arrow_y = 25, currentAngle = 0\<rparr>]\<rparr>))"
  using pointer_on_cell
    [of "\<lparr>canvasRef = Some \<lparr>width = 100, height = 50, context2d = True\<rparr>,
         targetMousePos = \<lparr>mouse_x = 75, mouse_y = 25\<rparr>,
         arrowGridPositions = [\<lparr>arrow_x = 25, arrow_y = 25, currentAngle = 0\<rparr>,
                               \<lparr>arrow_x = 75, arrow_y = 25, currentAngle = 0\<rparr>]\<rparr>"
        "\<lparr>width = 100, height = 50, context2d = True\<rparr>"
        "\<lparr>arrow_x = 75, arrow_y = 25, currentAngle = 0\<rparr>"]
  by simp

text \<open>
  C9: a frame leaves the positions \<open>x\<close> and \<open>y\<close> of every arrow, the mouse position and
  the canvas as they are, so that it writes the current angles only. No other handler
  writes the current angle of an arrow of the grid: \<open>handleMouseMove\<close> leaves the grid as
  it is, and \<open>setCanvasAndGrid\<close> leaves it as it is or replaces it by newly built arrows.
\<close>

theorem frame_writes_only_currentAngle:
  "map arrow_x (arrowGridPositions (fst (animate c))) = map arrow_x (arrowGridPositions c)
   \<and> map arrow_y (arrowGridPositions (fst (animate c))) = map arrow_y (arrowGridPositions c)
   \<and> targetMousePos (fst (animate c)) = targetMousePos c
   \<and> canvasRef (fst (animate c)) = canvasRef c
   \<and> arrowGridPositions (handleMouseMove clientX clientY c) = arrowGridPositions c
   \<and> arrowGridPositions (setCanvasAndGrid innerWidth innerHeight c) =
       (if canvasRef c = None then arrowGridPositions c
        else newGridPositions innerWidth innerHeight)"
proof -
  have 1: "map arrow_x (arrowGridPositions (fst (animate c))) = map arrow_x (arrowGridPositions c)"
    by (simp add: animate_def Let_def comp_def animateArrow_pos split: option.split)
  have 2: "map arrow_y (arrowGridPositions (fst (animate c))) = map arrow_y (arrowGridPositions c)"
    by (simp add: animate_def Let_def comp_def animateArrow_pos split: option.split)
  have 3: "targetMousePos (fst (animate c)) = targetMousePos c"
    by (simp add: animate_def Let_def split: option.split)
  have 4: "canvasRef (fst (animate c)) = canvasRef c"
    by (simp add: animate_def Let_def split: option.split)
  have 5: "arrowGridPositions (handleMouseMove clientX clientY c) = arrowGridPositions c"
    by (simp add: handleMouseMove_def)
  have 6: "arrowGridPositions (setCanvasAndGrid innerWidth innerHeight c) =
       (if canvasRef c = None then arrowGridPositions c
        else newGridPositions innerWidth innerHeight)"
    by (simp add: setCanvasAndGrid_def Let_def split: option.split)
  from 1 2 3 4 5 6 show ?thesis by blast
qed

end
